theory Spec2Isabelle
  imports Complex_Main
begin

section \<open>Tensor based ICP registration (Registration.cpp)\<close>

text \<open>
  A shallow embedding of \<^verbatim>\<open>cpp/open3d/t/pipelines/registration/Registration.cpp\<close>:
  the two correspondence searches, the wrapper that selects one of them,
  \<^verbatim>\<open>EvaluateRegistration\<close> and the loop of \<^verbatim>\<open>RegistrationICP\<close>.

  Conventions of the embedding.
  \<^item> A finite floating point value is the real number it denotes; NaN and the two
    infinities are values of their own (type \<open>float_t\<close>). The metrics of a result are
    computed in single precision: every such operation rounds its exact result to the
    nearest float32 value, ties to even, and overflows to an infinity. The sign of
    zero is not modelled.
  \<^item> \<^verbatim>\<open>LogError\<close> throws: every such call, and every failed \<^verbatim>\<open>Assert...\<close>, is
    an \<open>Inl\<close> result.
  \<^item> A function returns its value together with the list of the events it caused, in
    order: the calls to the nearest neighbour index, to the estimator and to the
    evaluator, and the \<^verbatim>\<open>LogDebug\<close> line of each iteration.
  \<^item> Field names lose the trailing underscore of the C++ members.
\<close>

subsection \<open>Floating point results\<close>

datatype float_t = Finite real | PosInf | NegInf | NaN

text \<open>
  Rounding to float32. A float32 value is \<open>n * 2 ^ (e - 23)\<close> with \<open>\<bar>n\<bar> < 2 ^ 24\<close> and
  \<open>-126 \<le> e \<le> 127\<close>. \<open>binade x\<close> is the exponent \<open>e\<close> of the interval
  \<open>2 ^ e \<le> \<bar>x\<bar> < 2 ^ (e + 1)\<close> that holds \<open>x\<close>, kept within these bounds (below
  \<open>2 ^ -126\<close> the values are subnormal, with the spacing of the exponent \<open>-126\<close>).
\<close>

definition pow2 :: "int \<Rightarrow> real" where
  "pow2 e = (if 0 \<le> e then 2 ^ nat e else 1 / 2 ^ nat (- e))"

function binade_up :: "real \<Rightarrow> int \<Rightarrow> int" where
  "binade_up x e = (if 127 \<le> e \<or> x < pow2 (e + 1) then e else binade_up x (e + 1))"
  by pat_completeness auto
termination
  by (relation "measure (\<lambda>(x, e). nat (127 - e))") auto

declare binade_up.simps [simp del]

definition binade :: "real \<Rightarrow> int" where
  "binade x = binade_up \<bar>x\<bar> (- 126)"

text \<open>The nearest integer, the even one of two nearest.\<close>

definition round_even :: "real \<Rightarrow> int" where
  "round_even q =
     (let f = \<lfloor>q\<rfloor>; r = q - of_int f in
      if r < 1 / 2 then f
      else if 1 / 2 < r then f + 1
      else if even f then f else f + 1)"

definition round32_value :: "real \<Rightarrow> real" where
  "round32_value x = (let u = pow2 (binade x - 23) in of_int (round_even (x / u)) * u)"

definition max_float32 :: real where
  "max_float32 = (2 ^ 24 - 1) * 2 ^ 104"

definition round_float32 :: "real \<Rightarrow> float_t" where
  "round_float32 x =
     (let y = round32_value x in
      if max_float32 < y then PosInf
      else if y < - max_float32 then NegInf
      else Finite y)"

text \<open>\<^verbatim>\<open>(float)n\<close> for a number of rows \<open>n\<close>.\<close>

definition float_of_count :: "nat \<Rightarrow> float_t" where
  "float_of_count n = round_float32 (real n)"

text \<open>
  The float32 quotient \<open>a / b\<close>: the rounded quotient of two finite values, \<open>0 / 0\<close> is
  NaN, \<open>x / 0\<close> is an infinity, and the cases with an infinite operand are those of
  IEEE 754.
\<close>

fun float_div :: "float_t \<Rightarrow> float_t \<Rightarrow> float_t" where
  "float_div NaN _ = NaN"
| "float_div _ NaN = NaN"
| "float_div (Finite a) (Finite b) =
     (if b \<noteq> 0 then round_float32 (a / b)
      else if a = 0 then NaN
      else if 0 < a then PosInf else NegInf)"
| "float_div (Finite a) _ = Finite 0"
| "float_div PosInf (Finite b) = (if 0 \<le> b then PosInf else NegInf)"
| "float_div NegInf (Finite b) = (if 0 \<le> b then NegInf else PosInf)"
| "float_div _ _ = NaN"

text \<open>\<^verbatim>\<open>std::sqrt\<close> on a float32 argument: the rounded square root.\<close>

fun float_sqrt :: "float_t \<Rightarrow> float_t" where
  "float_sqrt (Finite a) = (if a < 0 then NaN else round_float32 (sqrt a))"
| "float_sqrt PosInf = PosInf"
| "float_sqrt NegInf = NaN"
| "float_sqrt NaN = NaN"

text \<open>The float32 sum of two values.\<close>

fun float_add :: "float_t \<Rightarrow> float_t \<Rightarrow> float_t" where
  "float_add NaN _ = NaN"
| "float_add _ NaN = NaN"
| "float_add (Finite a) (Finite b) = round_float32 (a + b)"
| "float_add (Finite a) b = b"
| "float_add a (Finite b) = a"
| "float_add PosInf PosInf = PosInf"
| "float_add NegInf NegInf = NegInf"
| "float_add _ _ = NaN"

text \<open>
  The stop test of the loop subtracts and compares the metrics of two results, which
  are stored as doubles: the difference of two finite values is taken exactly.
\<close>

fun float_sub :: "float_t \<Rightarrow> float_t \<Rightarrow> float_t" where
  "float_sub NaN _ = NaN"
| "float_sub _ NaN = NaN"
| "float_sub (Finite a) (Finite b) = Finite (a - b)"
| "float_sub (Finite a) PosInf = NegInf"
| "float_sub (Finite a) NegInf = PosInf"
| "float_sub PosInf PosInf = NaN"
| "float_sub PosInf _ = PosInf"
| "float_sub NegInf NegInf = NaN"
| "float_sub NegInf _ = NegInf"

fun float_abs :: "float_t \<Rightarrow> float_t" where
  "float_abs (Finite a) = Finite \<bar>a\<bar>"
| "float_abs PosInf = PosInf"
| "float_abs NegInf = PosInf"
| "float_abs NaN = NaN"

text \<open>\<open>x < y\<close> on floating point values: false as soon as one side is NaN.\<close>

fun float_less :: "float_t \<Rightarrow> float_t \<Rightarrow> bool" where
  "float_less NaN _ = False"
| "float_less _ NaN = False"
| "float_less (Finite a) (Finite b) = (a < b)"
| "float_less (Finite a) PosInf = True"
| "float_less (Finite a) NegInf = False"
| "float_less PosInf _ = False"
| "float_less NegInf NegInf = False"
| "float_less NegInf _ = True"

fun float_le :: "float_t \<Rightarrow> float_t \<Rightarrow> bool" where
  "float_le NaN _ = False"
| "float_le _ NaN = False"
| "float_le (Finite a) (Finite b) = (a \<le> b)"
| "float_le (Finite a) PosInf = True"
| "float_le (Finite a) NegInf = False"
| "float_le PosInf PosInf = True"
| "float_le PosInf _ = False"
| "float_le NegInf _ = True"

subsection \<open>Tensors, point clouds, results\<close>

text \<open>
  Modelled from the spec: \<^verbatim>\<open>core::Dtype\<close> and \<^verbatim>\<open>core::Device\<close> (open3d/core) are
  not among the sources. The spec speaks of a numeric precision tag and of a compute
  device tag; the source names \<^verbatim>\<open>core::Dtype::Float32\<close> and compares devices with
  \<^verbatim>\<open>!=\<close>.
\<close>

datatype Dtype = Float32 | Float64 | Int32 | Int64

datatype Device = CPU nat | CUDA nat

text \<open>
  Modelled from the spec: \<^verbatim>\<open>core::Tensor\<close> (open3d/core/Tensor.h) is not among the
  sources. Of a tensor the source reads the shape, the element type and the device; the
  only tensors whose elements matter here are the 4 x 4 transformations, kept as a list
  of rows.
\<close>

record Tensor =
  shape :: "nat list"
  dtype :: Dtype
  device :: Device
  rows :: "real list list"

type_synonym point = "real \<times> real \<times> real"

text \<open>
  Modelled from the spec: \<^verbatim>\<open>t::geometry::PointCloud\<close> is not among the sources; the
  spec's PointSet is an ordered sequence of 3D points with a device and a precision tag.
\<close>

record PointCloud =
  points :: "point list"
  points_dtype :: Dtype
  points_device :: Device

datatype error =
    AssertDtype
  | AssertShape
  | AssertDevice
  | DeviceMismatch
  | IndexIsNotSet
  | MatmulError
  | EstimationError

datatype event =
    Ev_KnnIndex
  | Ev_KnnSearch
  | Ev_HybridIndex
  | Ev_HybridSearch
  | Ev_ComputeTransformation
  | Ev_Evaluate
  | Ev_LogDebug int float_t float_t

type_synonym 'a outcome = "(error + 'a) \<times> event list"

definition ret :: "'a \<Rightarrow> 'a outcome" where
  "ret x = (Inr x, [])"

definition throw :: "error \<Rightarrow> 'a outcome" where
  "throw e = (Inl e, [])"

definition emit :: "event \<Rightarrow> unit outcome" where
  "emit ev = (Inr (), [ev])"

definition lift :: "error + 'a \<Rightarrow> 'a outcome" where
  "lift r = (r, [])"

text \<open>Sequencing: an error ends the computation, the events so far are kept.\<close>

definition bnd :: "'a outcome \<Rightarrow> ('a \<Rightarrow> 'b outcome) \<Rightarrow> 'b outcome" where
  "bnd m f =
     (case m of
        (Inl e, l) \<Rightarrow> (Inl e, l)
      | (Inr x, l) \<Rightarrow> (case f x of (r, l') \<Rightarrow> (r, l @ l')))"

text \<open>
  Modelled from the spec: \<^verbatim>\<open>Tensor::Matmul\<close> is not among the sources. The spec asks
  for the matrix product, in the order written; the model computes it for two matrices
  of one element type on one device whose inner dimensions agree, and fails otherwise.
  The entries are the exact sums of products: their rounding is not modelled.
\<close>

definition dot :: "real list \<Rightarrow> real list \<Rightarrow> real" where
  "dot u v = sum_list (map2 (\<lambda>a b. a * b) u v)"

definition column :: "real list list \<Rightarrow> nat \<Rightarrow> real list" where
  "column m j = map (\<lambda>r. r ! j) m"

definition Matmul :: "Tensor \<Rightarrow> Tensor \<Rightarrow> error + Tensor" where
  "Matmul a b =
     (case (shape a, shape b) of
        ([m, k], [k', n]) \<Rightarrow>
          if k = k' \<and> dtype a = dtype b \<and> device a = device b
          then Inr \<lparr>shape = [m, n], dtype = dtype a, device = device a,
                    rows = map (\<lambda>r. map (\<lambda>j. dot r (column (rows b) j)) [0..<n]) (rows a)\<rparr>
          else Inl MatmulError
      | _ \<Rightarrow> Inl MatmulError)"

text \<open>
  Modelled from the spec: \<^verbatim>\<open>PointCloud::Transform\<close> is not among the sources. The
  spec asks for the in-place application of a 4 x 4 rigid transformation: every point
  \<open>p\<close> becomes \<open>R p + t\<close>, with \<open>R\<close> the upper left 3 x 3 block and \<open>t\<close> the first three
  entries of the last column. The model returns the transformed cloud; the coordinates
  are the exact values, their rounding is not modelled.
\<close>

definition transform_point :: "real list list \<Rightarrow> point \<Rightarrow> point" where
  "transform_point m p =
     (case p of (x, y, z) \<Rightarrow>
        (m ! 0 ! 0 * x + m ! 0 ! 1 * y + m ! 0 ! 2 * z + m ! 0 ! 3,
         m ! 1 ! 0 * x + m ! 1 ! 1 * y + m ! 1 ! 2 * z + m ! 1 ! 3,
         m ! 2 ! 0 * x + m ! 2 ! 1 * y + m ! 2 ! 2 * z + m ! 2 ! 3))"

definition Transform :: "PointCloud \<Rightarrow> Tensor \<Rightarrow> error + PointCloud" where
  "Transform pc T =
     (if shape T = [4, 4]
      then Inr (pc\<lparr>points := map (transform_point (rows T)) (points pc)\<rparr>)
      else Inl AssertShape)"

record RegistrationResult =
  transformation :: Tensor
  correspondence_select_bool :: "bool list"
  correspondence_set :: "int list"
  inlier_rmse :: float_t
  fitness :: float_t

text \<open>
  Two things that the evaluators use and that are not among the sources are parameters
  of the model, the fields of a \<open>runtime\<close>:
  \<^item> \<open>constructed_mask\<close> is the mask of a freshly constructed result (see
    \<open>RegistrationResult_new\<close> below). Nothing is assumed of it.
  \<^item> \<open>sum_item\<close> is \<^verbatim>\<open>t.Sum({0}).Item<float_t>()\<close> on a Float32 tensor of one
    dimension: the float32 sum of its entries, in the order and with the roundings
    of the tensor runtime. (\<^verbatim>\<open>float_t\<close> is \<^verbatim>\<open>float\<close> where expressions are evaluated
    in the precision of their type, as on x86-64 and AArch64.)
\<close>

record runtime =
  constructed_mask :: "Tensor \<Rightarrow> bool list"
  sum_item :: "real list \<Rightarrow> float_t"

text \<open>
  Modelled from the spec: the constructor \<^verbatim>\<open>RegistrationResult(transformation)\<close> is
  declared in Registration.h, which is not among the sources. It receives the
  transformation and nothing else. By spec 4.2, the result of an evaluation that runs
  no search carries the given transformation, no correspondence index, \<open>fitness = 0\<close>
  and \<open>inlier_rmse = 0\<close>: the constructor sets these fields. The mask that the spec
  gives that result (all false, one entry for each source point) cannot be built from
  the transformation alone, so the mask of the constructed result is left to the
  runtime.
\<close>

definition RegistrationResult_new :: "runtime \<Rightarrow> Tensor \<Rightarrow> RegistrationResult" where
  "RegistrationResult_new rt T =
     \<lparr>transformation = T, correspondence_select_bool = constructed_mask rt T,
      correspondence_set = [], inlier_rmse = Finite 0, fitness = Finite 0\<rparr>"

record ICPConvergenceCriteria =
  relative_fitness :: real
  relative_rmse :: real
  max_iteration :: int

subsection \<open>The nearest neighbour index\<close>

text \<open>
  The object \<^verbatim>\<open>target_nns\<close> that the evaluators receive. Its class,
  \<^verbatim>\<open>core::nns::NearestNeighborSearch\<close>, is not among the sources: the model takes the
  four operations that the source calls as the fields of the object. \<^verbatim>\<open>KnnIndex()\<close> and
  \<^verbatim>\<open>HybridIndex()\<close> build the index and say whether that succeeded; the searches
  return a pair of tensors, the indices and the distances, one entry for each query
  point.
\<close>

record NearestNeighborSearch =
  KnnIndex :: bool
  KnnSearch :: "point list \<Rightarrow> int list \<times> real list"
  HybridIndex :: bool
  HybridSearch :: "point list \<Rightarrow> real \<Rightarrow> int list \<times> real list"

text \<open>
  \<^verbatim>\<open>t.IndexGet({mask})\<close> keeps the entries of \<open>t\<close> at the true positions of the mask,
  in order. The source applies it to the two tensors of one search result, with a mask
  computed from one of them; entries and mask are paired by position.
\<close>

definition IndexGet :: "'a list \<Rightarrow> bool list \<Rightarrow> 'a list" where
  "IndexGet xs sel = map fst (filter snd (zip xs sel))"

subsection \<open>The evaluators\<close>

text \<open>
  The checks that open every function of the file but \<^verbatim>\<open>RegistrationICP\<close>, in the
  order of the source.
\<close>

definition check_inputs :: "PointCloud \<Rightarrow> PointCloud \<Rightarrow> Tensor \<Rightarrow> error + unit" where
  "check_inputs source target T =
     (if points_dtype source \<noteq> Float32 then Inl AssertDtype
      else if points_dtype target \<noteq> Float32 then Inl AssertDtype
      else if points_device target \<noteq> points_device source then Inl DeviceMismatch
      else if shape T \<noteq> [4, 4] then Inl AssertShape
      else if device T \<noteq> points_device source then Inl AssertDevice
      else if dtype T \<noteq> Float32 then Inl AssertDtype
      else Inr ())"

definition GetCorrespondencesFromKNNSearch ::
  "runtime \<Rightarrow> PointCloud \<Rightarrow> PointCloud \<Rightarrow> NearestNeighborSearch \<Rightarrow> real \<Rightarrow> Tensor
     \<Rightarrow> RegistrationResult outcome" where
  "GetCorrespondencesFromKNNSearch rt source target target_nns max_correspondence_distance T =
     bnd (lift (check_inputs source target T)) (\<lambda>_.
       let result = RegistrationResult_new rt T in
       if max_correspondence_distance \<le> 0 then ret result
       else
         bnd (emit Ev_KnnIndex) (\<lambda>_.
           if \<not> KnnIndex target_nns then throw IndexIsNotSet
           else
             bnd (emit Ev_KnnSearch) (\<lambda>_.
               let result_nns = KnnSearch target_nns (points source);
                   select_bool = map (\<lambda>d. d \<le> max_correspondence_distance) (snd result_nns);
                   corr_set = IndexGet (fst result_nns) select_bool;
                   dist_select = IndexGet (snd result_nns) select_bool;
                   squared_error = sum_item rt dist_select
               in ret (result
                    \<lparr>correspondence_select_bool := select_bool,
                     correspondence_set := corr_set,
                     fitness := float_div (float_of_count (length corr_set))
                                (float_of_count (length select_bool)),
                     inlier_rmse :=
                       float_sqrt (float_div squared_error (float_of_count (length corr_set))),
                     transformation := T\<rparr>))))"

definition GetCorrespondencesFromHybridSearch ::
  "runtime \<Rightarrow> PointCloud \<Rightarrow> PointCloud \<Rightarrow> NearestNeighborSearch \<Rightarrow> real \<Rightarrow> Tensor
     \<Rightarrow> RegistrationResult outcome" where
  "GetCorrespondencesFromHybridSearch rt source target target_nns max_correspondence_distance T =
     bnd (lift (check_inputs source target T)) (\<lambda>_.
       let result = RegistrationResult_new rt T in
       if max_correspondence_distance \<le> 0 then ret result
       else
         bnd (emit Ev_HybridIndex) (\<lambda>_.
           if \<not> HybridIndex target_nns then throw IndexIsNotSet
           else
             let max_correspondence_distance' =
                   max_correspondence_distance * max_correspondence_distance
             in
             bnd (emit Ev_HybridSearch) (\<lambda>_.
               let result_nns =
                     HybridSearch target_nns (points source) max_correspondence_distance';
                   select_bool = map (\<lambda>i. i \<noteq> - 1) (fst result_nns);
                   corr_set = IndexGet (fst result_nns) select_bool;
                   dist_select = IndexGet (snd result_nns) select_bool;
                   squared_error = sum_item rt dist_select
               in ret (result
                    \<lparr>correspondence_select_bool := select_bool,
                     correspondence_set := corr_set,
                     fitness := float_div (float_of_count (length corr_set))
                                (float_of_count (length select_bool)),
                     inlier_rmse :=
                       float_sqrt (float_div squared_error (float_of_count (length corr_set))),
                     transformation := T\<rparr>))))"

text \<open>
  The wrapper. Its \<^verbatim>\<open>condition\<close> is the constant \<open>false\<close>, so it always runs the
  hybrid search; the event \<open>Ev_Evaluate\<close> records that one correspondence evaluation
  was asked for.
\<close>

definition GetRegistrationResultAndCorrespondences ::
  "runtime \<Rightarrow> PointCloud \<Rightarrow> PointCloud \<Rightarrow> NearestNeighborSearch \<Rightarrow> real \<Rightarrow> Tensor
     \<Rightarrow> RegistrationResult outcome" where
  "GetRegistrationResultAndCorrespondences rt source target target_nns
       max_correspondence_distance T =
     bnd (lift (check_inputs source target T)) (\<lambda>_.
       bnd (emit Ev_Evaluate) (\<lambda>_.
         let condition = False in
         if condition
         then GetCorrespondencesFromKNNSearch rt source target target_nns
                max_correspondence_distance T
         else GetCorrespondencesFromHybridSearch rt source target target_nns
                max_correspondence_distance T))"

text \<open>
  \<^verbatim>\<open>EvaluateRegistration\<close>. The class \<^verbatim>\<open>NearestNeighborSearch\<close> is not among the
  sources: its constructor, applied to the points of the target, is the parameter
  \<open>nns\<close>.
\<close>

definition EvaluateRegistration ::
  "runtime \<Rightarrow> (point list \<Rightarrow> NearestNeighborSearch) \<Rightarrow> PointCloud \<Rightarrow> PointCloud \<Rightarrow> real \<Rightarrow> Tensor
     \<Rightarrow> RegistrationResult outcome" where
  "EvaluateRegistration rt nns source target max_correspondence_distance T =
     bnd (lift (check_inputs source target T)) (\<lambda>_.
       let target_nns = nns (points target) in
       bnd (lift (Transform source T)) (\<lambda>source_transformed.
         GetRegistrationResultAndCorrespondences rt source_transformed target target_nns
           max_correspondence_distance T))"

subsection \<open>RegistrationICP\<close>

text \<open>
  \<^verbatim>\<open>estimation.ComputeTransformation(source, target, corres)\<close> is a virtual call: the
  estimator is a parameter. It returns the update or fails.
\<close>

type_synonym TransformationEstimation =
  "PointCloud \<Rightarrow> PointCloud \<Rightarrow> bool list \<times> int list \<Rightarrow> error + Tensor"

text \<open>The checks that open \<^verbatim>\<open>RegistrationICP\<close>: shape, element type, device.\<close>

definition check_inputs_icp :: "PointCloud \<Rightarrow> PointCloud \<Rightarrow> Tensor \<Rightarrow> error + unit" where
  "check_inputs_icp source target init =
     (if points_dtype source \<noteq> Float32 then Inl AssertDtype
      else if points_dtype target \<noteq> Float32 then Inl AssertDtype
      else if points_device target \<noteq> points_device source then Inl DeviceMismatch
      else if shape init \<noteq> [4, 4] then Inl AssertShape
      else if dtype init \<noteq> Float32 then Inl AssertDtype
      else if device init \<noteq> points_device source then Inl AssertDevice
      else Inr ())"

text \<open>The local variables of \<^verbatim>\<open>RegistrationICP\<close> that the loop changes.\<close>

record icp_state =
  cur_transformation :: Tensor
  source_transformed :: PointCloud
  result :: RegistrationResult
  corres :: "bool list \<times> int list"

text \<open>The test that ends the loop: both differences are below their thresholds.\<close>

definition delta_below :: "float_t \<Rightarrow> float_t \<Rightarrow> real \<Rightarrow> bool" where
  "delta_below prev cur threshold \<longleftrightarrow>
     float_less (float_abs (float_sub prev cur)) (Finite threshold)"

definition converged :: "ICPConvergenceCriteria \<Rightarrow> RegistrationResult \<Rightarrow> RegistrationResult \<Rightarrow> bool" where
  "converged criteria backup res \<longleftrightarrow>
     delta_below (fitness backup) (fitness res) (relative_fitness criteria) \<and>
     delta_below (inlier_rmse backup) (inlier_rmse res) (relative_rmse criteria)"

text \<open>
  The body of the loop up to the test: it returns \<open>backup\<close>, the result before the
  update, with the new values of the local variables.
\<close>

definition icp_iteration ::
  "runtime \<Rightarrow> TransformationEstimation \<Rightarrow> PointCloud \<Rightarrow> NearestNeighborSearch \<Rightarrow> real \<Rightarrow> int
     \<Rightarrow> icp_state \<Rightarrow> (RegistrationResult \<times> icp_state) outcome" where
  "icp_iteration rt estimation target target_nns max_correspondence_distance i st =
     bnd (emit (Ev_LogDebug i (fitness (result st)) (inlier_rmse (result st)))) (\<lambda>_.
       bnd (emit Ev_ComputeTransformation) (\<lambda>_.
         bnd (lift (estimation (source_transformed st) target (corres st))) (\<lambda>update.
           bnd (lift (Matmul update (cur_transformation st))) (\<lambda>transformation'.
             bnd (lift (Transform (source_transformed st) update)) (\<lambda>source_transformed'.
               let backup = result st in
               bnd (GetRegistrationResultAndCorrespondences rt source_transformed' target
                      target_nns max_correspondence_distance transformation') (\<lambda>result'.
                 ret (backup,
                      \<lparr>cur_transformation = transformation',
                       source_transformed = source_transformed',
                       result = result',
                       corres = (correspondence_select_bool result',
                                 correspondence_set result')\<rparr>)))))))"

function icp_loop ::
  "runtime \<Rightarrow> TransformationEstimation \<Rightarrow> PointCloud \<Rightarrow> NearestNeighborSearch \<Rightarrow> real
     \<Rightarrow> ICPConvergenceCriteria \<Rightarrow> int \<Rightarrow> icp_state \<Rightarrow> icp_state outcome" where
  "icp_loop rt estimation target target_nns max_correspondence_distance criteria i st =
     (if i < max_iteration criteria
      then
        (case icp_iteration rt estimation target target_nns max_correspondence_distance i st of
           (Inl e, l) \<Rightarrow> (Inl e, l)
         | (Inr (backup, st'), l) \<Rightarrow>
             if converged criteria backup (result st') then (Inr st', l)
             else
               (case icp_loop rt estimation target target_nns max_correspondence_distance
                       criteria (i + 1) st' of
                  (r, l') \<Rightarrow> (r, l @ l')))
      else (Inr st, []))"
  by pat_completeness auto
termination
  by (relation "measure (\<lambda>(rt, estimation, target, target_nns, d, criteria, i, st).
        nat (max_iteration criteria - i))") auto

declare icp_loop.simps [simp del]

text \<open>
  \<^verbatim>\<open>RegistrationICP\<close>. As in \<^verbatim>\<open>EvaluateRegistration\<close>, \<open>nns\<close> stands for the
  constructor of the index. The source first binds \<^verbatim>\<open>result\<close> to
  \<^verbatim>\<open>RegistrationResult(transformation)\<close> (the class has no default constructor) and
  overwrites it at once with the first evaluation: the model starts from that
  evaluation. The loop counter \<open>i\<close> runs from 0 while \<open>i < max_iteration\<close>; the
  \<^verbatim>\<open>break\<close> is the branch of \<open>icp_loop\<close> that returns without a recursive call.
\<close>

definition RegistrationICP ::
  "runtime \<Rightarrow> (point list \<Rightarrow> NearestNeighborSearch) \<Rightarrow> PointCloud \<Rightarrow> PointCloud \<Rightarrow> real \<Rightarrow> Tensor
     \<Rightarrow> TransformationEstimation \<Rightarrow> ICPConvergenceCriteria \<Rightarrow> RegistrationResult outcome" where
  "RegistrationICP rt nns source target max_correspondence_distance init
       estimation criteria =
     bnd (lift (check_inputs_icp source target init)) (\<lambda>_.
       let target_nns = nns (points target) in
       bnd (lift (Transform source init)) (\<lambda>source_transformed0.
         bnd (GetRegistrationResultAndCorrespondences rt source_transformed0 target target_nns
                max_correspondence_distance init) (\<lambda>result0.
           bnd (icp_loop rt estimation target target_nns max_correspondence_distance criteria 0
                  \<lparr>cur_transformation = init,
                   source_transformed = source_transformed0,
                   result = result0,
                   corres = (correspondence_select_bool result0,
                             correspondence_set result0)\<rparr>) (\<lambda>st.
             ret (result st)))))"

subsection \<open>The index of the spec\<close>

text \<open>
  Modelled from the spec: the class \<^verbatim>\<open>core::nns::NearestNeighborSearch\<close> is not among
  the sources. The spec (4.1) gives its two queries over a fixed target point set:
  \<^verbatim>\<open>NearestNeighbor\<close> returns, for each query point, the nearest target index and the
  linear distance to it; \<^verbatim>\<open>RadiusNearestNeighbor\<close> returns the nearest target index
  within the radius and the squared distance to it, or the sentinel \<open>-1\<close>. The hybrid
  search of the source is handed the squared cutoff, which the model compares with the
  squared distance. Of several nearest points the model takes the first. The spec gives
  no distance beside the sentinel (the model writes 0 there) and no answer of
  \<^verbatim>\<open>NearestNeighbor\<close> over a target without points (the model writes the sentinel
  with distance 0). The distances are the exact ones: a rounding inside the index is
  not modelled.
\<close>

definition sqdist :: "point \<Rightarrow> point \<Rightarrow> real" where
  "sqdist p q =
     (case (p, q) of ((x, y, z), (x', y', z')) \<Rightarrow> (x - x')\<^sup>2 + (y - y')\<^sup>2 + (z - z')\<^sup>2)"

fun nearest_from :: "point \<Rightarrow> point list \<Rightarrow> nat \<Rightarrow> nat \<times> real \<Rightarrow> nat \<times> real" where
  "nearest_from q [] i best = best"
| "nearest_from q (t # ts) i best =
     nearest_from q ts (Suc i) (if sqdist q t < snd best then (i, sqdist q t) else best)"

definition nearest :: "point list \<Rightarrow> point \<Rightarrow> (nat \<times> real) option" where
  "nearest tgt q =
     (case tgt of [] \<Rightarrow> None | t # ts \<Rightarrow> Some (nearest_from q ts 1 (0, sqdist q t)))"

definition knn_row :: "point list \<Rightarrow> point \<Rightarrow> int \<times> real" where
  "knn_row tgt q =
     (case nearest tgt q of None \<Rightarrow> (- 1, 0) | Some (i, d2) \<Rightarrow> (int i, sqrt d2))"

definition hybrid_row :: "point list \<Rightarrow> real \<Rightarrow> point \<Rightarrow> int \<times> real" where
  "hybrid_row tgt radius q =
     (case nearest tgt q of
        None \<Rightarrow> (- 1, 0)
      | Some (i, d2) \<Rightarrow> if d2 \<le> radius then (int i, d2) else (- 1, 0))"

definition spec_nns :: "point list \<Rightarrow> NearestNeighborSearch" where
  "spec_nns tgt =
     \<lparr>KnnIndex = True,
      KnnSearch = (\<lambda>qs. (map (\<lambda>q. fst (knn_row tgt q)) qs, map (\<lambda>q. snd (knn_row tgt q)) qs)),
      HybridIndex = True,
      HybridSearch = (\<lambda>qs radius.
         (map (\<lambda>q. fst (hybrid_row tgt radius q)) qs,
          map (\<lambda>q. snd (hybrid_row tgt radius q)) qs))\<rparr>"

subsection \<open>Reading the event list\<close>

definition estimator_calls :: "event list \<Rightarrow> nat" where
  "estimator_calls l = count_list l Ev_ComputeTransformation"

definition evaluations :: "event list \<Rightarrow> nat" where
  "evaluations l = count_list l Ev_Evaluate"

text \<open>
  The fitness and the rmse that the \<^verbatim>\<open>LogDebug\<close> line of each iteration prints: those
  of the result the iteration starts from.
\<close>

definition logged_metrics :: "event list \<Rightarrow> (float_t \<times> float_t) list" where
  "logged_metrics l =
     concat (map (\<lambda>ev. case ev of Ev_LogDebug i f e \<Rightarrow> [(f, e)] | _ \<Rightarrow> []) l)"

definition metrics :: "RegistrationResult \<Rightarrow> float_t \<times> float_t" where
  "metrics r = (fitness r, inlier_rmse r)"



text \<open>
  One iteration as the spec words it (4.4 a to d), as a relation between the local
  variables before and after: the estimator is asked for an update on the working cloud
  and the last correspondences, the running transformation becomes \<open>update * old\<close>, the
  working cloud becomes the previous working cloud transformed by the update, and the
  result becomes the evaluation of the new working cloud under the new running
  transformation.
\<close>

definition iteration_step ::
  "runtime \<Rightarrow> TransformationEstimation \<Rightarrow> PointCloud \<Rightarrow> NearestNeighborSearch \<Rightarrow> real
     \<Rightarrow> icp_state \<Rightarrow> icp_state \<Rightarrow> bool" where
  "iteration_step rt estimation target target_nns d st st' \<longleftrightarrow>
     (case estimation (source_transformed st) target (corres st) of
        Inl e \<Rightarrow> False
      | Inr update \<Rightarrow>
          Matmul update (cur_transformation st) = Inr (cur_transformation st') \<and>
          Transform (source_transformed st) update = Inr (source_transformed st') \<and>
          fst (GetRegistrationResultAndCorrespondences rt (source_transformed st') target
                 target_nns d (cur_transformation st')) = Inr (result st') \<and>
          corres st' = (correspondence_select_bool (result st'),
                        correspondence_set (result st')))"

text \<open>
  The result that \<^verbatim>\<open>GetCorrespondencesFromHybridSearch\<close> builds once the search has
  run (lemma \<open>hybrid_eq\<close> below).
\<close>

definition hybrid_result ::
  "runtime \<Rightarrow> NearestNeighborSearch \<Rightarrow> PointCloud \<Rightarrow> real \<Rightarrow> Tensor \<Rightarrow> RegistrationResult" where
  "hybrid_result rt target_nns source d T =
     (let result_nns = HybridSearch target_nns (points source) (d * d);
          select_bool = map (\<lambda>i. i \<noteq> - 1) (fst result_nns);
          corr_set = IndexGet (fst result_nns) select_bool;
          dist_select = IndexGet (snd result_nns) select_bool
      in \<lparr>transformation = T, correspondence_select_bool = select_bool,
          correspondence_set = corr_set,
          inlier_rmse =
            float_sqrt (float_div (sum_item rt dist_select) (float_of_count (length corr_set))),
          fitness =
            float_div (float_of_count (length corr_set)) (float_of_count (length select_bool))\<rparr>)"


subsection \<open>Inputs of the examples\<close>

text \<open>
  A runtime for the examples: the constructed mask is empty, and the sum adds the
  entries from left to right in float32.
\<close>

definition seq_sum :: "real list \<Rightarrow> float_t" where
  "seq_sum xs = foldl float_add (Finite 0) (map Finite xs)"

definition example_rt :: runtime where
  "example_rt = \<lparr>constructed_mask = (\<lambda>T. []), sum_item = seq_sum\<rparr>"

definition eye4 :: Tensor where
  "eye4 = \<lparr>shape = [4, 4], dtype = Float32, device = CPU 0,
           rows = [[1, 0, 0, 0], [0, 1, 0, 0], [0, 0, 1, 0], [0, 0, 0, 1]]\<rparr>"

definition cloud :: "point list \<Rightarrow> Dtype \<Rightarrow> Device \<Rightarrow> PointCloud" where
  "cloud ps dt dev = \<lparr>points = ps, points_dtype = dt, points_device = dev\<rparr>"

definition no_update :: TransformationEstimation where
  "no_update source target c = Inr eye4"

definition criteria0 :: "int \<Rightarrow> ICPConvergenceCriteria" where
  "criteria0 n =
     \<lparr>relative_fitness = 1 / 1000000, relative_rmse = 1 / 1000000, max_iteration = n\<rparr>"

definition rot_z :: Tensor where
  "rot_z = \<lparr>shape = [4, 4], dtype = Float32, device = CPU 0,
            rows = [[0, - 1, 0, 0], [1, 0, 0, 0], [0, 0, 1, 0], [0, 0, 0, 1]]\<rparr>"

definition shift_x :: Tensor where
  "shift_x = \<lparr>shape = [4, 4], dtype = Float32, device = CPU 0,
              rows = [[1, 0, 0, 1], [0, 1, 0, 0], [0, 0, 1, 0], [0, 0, 0, 1]]\<rparr>"

definition shift_rot :: Tensor where
  "shift_rot = \<lparr>shape = [4, 4], dtype = Float32, device = CPU 0,
                rows = [[0, - 1, 0, 1], [1, 0, 0, 0], [0, 0, 1, 0], [0, 0, 0, 1]]\<rparr>"

definition always_shift :: TransformationEstimation where
  "always_shift source target c = Inr shift_x"

definition shift_once :: TransformationEstimation where
  "shift_once source target c =
     (if points source = [(0, 0, 0)] then Inr shift_x else Inr eye4)"

definition unit_src :: PointCloud where
  "unit_src = cloud [(0, 0, 0)] Float32 (CPU 0)"

definition unit_tgt :: PointCloud where
  "unit_tgt = cloud [(1, 0, 0)] Float32 (CPU 0)"

definition matched :: "Tensor \<Rightarrow> real \<Rightarrow> RegistrationResult" where
  "matched T e =
     \<lparr>transformation = T, correspondence_select_bool = [True], correspondence_set = [0],
      inlier_rmse = Finite e, fitness = Finite 1\<rparr>"

definition two_src :: PointCloud where
  "two_src = cloud [(0, 0, 0), (5, 0, 0)] Float32 (CPU 0)"

definition two_tgt :: PointCloud where
  "two_tgt = cloud [(9, 9, 9), (1, 0, 0)] Float32 (CPU 0)"

definition three_src :: PointCloud where
  "three_src = cloud [(0, 0, 0), (2, 0, 0), (50, 0, 0)] Float32 (CPU 0)"

definition far_tgt :: PointCloud where
  "far_tgt = cloud [(10, 0, 0)] Float32 (CPU 0)"

definition unmatched :: RegistrationResult where
  "unmatched = \<lparr>transformation = eye4, correspondence_select_bool = [False],
      correspondence_set = [], inlier_rmse = NaN, fitness = Finite 0\<rparr>"

definition shift2 :: Tensor where
  "shift2 = \<lparr>shape = [4, 4], dtype = Float32, device = CPU 0,
             rows = [[1, 0, 0, 2], [0, 1, 0, 0], [0, 0, 1, 0], [0, 0, 0, 1]]\<rparr>"

definition off_src :: PointCloud where
  "off_src = cloud [(2, 0, 0)] Float32 (CPU 0)"

definition leave_once :: TransformationEstimation where
  "leave_once source target c =
     (if points source = [(1, 0, 0)] then Inr shift_x else Inr eye4)"


section \<open>Properties\<close>

subsection \<open>Sequencing\<close>

lemma bnd_lift_Inl: "bnd (lift (Inl e)) f = (Inl e, [])"
  by (simp add: bnd_def lift_def)

lemma bnd_lift_Inr: "bnd (lift (Inr x)) f = f x"
  by (simp add: bnd_def lift_def split: prod.splits)

lemma bnd_emit: "bnd (emit ev) f = (fst (f ()), ev # snd (f ()))"
  by (simp add: bnd_def emit_def split: prod.splits)

lemma bnd_ret: "bnd (ret x) f = f x"
  by (simp add: bnd_def ret_def split: prod.splits)

lemma bnd_throw: "bnd (throw e) f = (Inl e, [])"
  by (simp add: bnd_def throw_def)

subsection \<open>The checks on the inputs\<close>

lemma check_inputs_Inr:
  "check_inputs source target T = Inr u \<longleftrightarrow>
     points_dtype source = Float32 \<and> points_dtype target = Float32 \<and>
     points_device target = points_device source \<and> shape T = [4, 4] \<and>
     device T = points_device source \<and> dtype T = Float32"
  by (simp add: check_inputs_def)

lemma check_inputs_icp_Inr:
  "check_inputs_icp source target T = Inr u \<longleftrightarrow>
     points_dtype source = Float32 \<and> points_dtype target = Float32 \<and>
     points_device target = points_device source \<and> shape T = [4, 4] \<and>
     device T = points_device source \<and> dtype T = Float32"
  by (auto simp add: check_inputs_icp_def)

lemma EvaluateRegistration_rejects:
  "check_inputs source target T = Inl e \<Longrightarrow>
   EvaluateRegistration rt nns source target d T = (Inl e, [])"
  by (simp add: EvaluateRegistration_def bnd_lift_Inl)

lemma RegistrationICP_rejects:
  "check_inputs_icp source target T = Inl e \<Longrightarrow>
   RegistrationICP rt nns source target d T estimation criteria = (Inl e, [])"
  by (simp add: RegistrationICP_def bnd_lift_Inl)

lemma rejected_both:
  assumes "\<not> (points_dtype source = Float32 \<and> points_dtype target = Float32 \<and>
     points_device target = points_device source \<and> shape T = [4, 4] \<and>
     device T = points_device source \<and> dtype T = Float32)"
  shows "(\<exists>e. EvaluateRegistration rt nns source target d T = (Inl e, [])) \<and>
         (\<exists>e. RegistrationICP rt nns source target d T estimation criteria = (Inl e, []))"
proof -
  from assms have a: "\<And>u. check_inputs source target T \<noteq> Inr u"
    and b: "\<And>u. check_inputs_icp source target T \<noteq> Inr u"
    by (simp_all only: check_inputs_Inr check_inputs_icp_Inr not_False_eq_True)
  from a obtain e where "check_inputs source target T = Inl e"
    by (cases "check_inputs source target T") auto
  moreover from b obtain e' where "check_inputs_icp source target T = Inl e'"
    by (cases "check_inputs_icp source target T") auto
  ultimately show ?thesis
    by (auto simp: EvaluateRegistration_rejects RegistrationICP_rejects)
qed

text \<open>
  C9. When the target is on another device than the source, or the transformation is
  not 4 x 4, or its device or its element type differs from that of the point clouds
  (or the two clouds differ in element type), \<^verbatim>\<open>EvaluateRegistration\<close> and
  \<^verbatim>\<open>RegistrationICP\<close> fail, and the event list of the failed call is empty: no index
  was built, no search and no correspondence evaluation was run, no estimator was
  called, and nothing was tried a second time.
\<close>

theorem precondition_violation_is_fatal:
  assumes "points_device target \<noteq> points_device source \<or> shape T \<noteq> [4, 4] \<or>
           device T \<noteq> points_device source \<or> dtype T \<noteq> points_dtype source \<or>
           points_dtype target \<noteq> points_dtype source"
  shows "(\<exists>e. EvaluateRegistration rt nns source target d T = (Inl e, [])) \<and>
         (\<exists>e. RegistrationICP rt nns source target d T estimation criteria = (Inl e, []))"
proof (rule rejected_both)
  show "\<not> (points_dtype source = Float32 \<and> points_dtype target = Float32 \<and>
     points_device target = points_device source \<and> shape T = [4, 4] \<and>
     device T = points_device source \<and> dtype T = Float32)"
    using assms by auto
qed

theorem precondition_violation_is_fatal_witness:
  "EvaluateRegistration example_rt spec_nns (cloud [(0, 0, 0)] Float32 (CPU 0))
      (cloud [(1, 0, 0)] Float32 (CUDA 0)) 1 eye4 = (Inl DeviceMismatch, []) \<and>
   RegistrationICP example_rt spec_nns (cloud [(0, 0, 0)] Float32 (CPU 0))
      (cloud [(1, 0, 0)] Float32 (CUDA 0)) 1 eye4 no_update (criteria0 30)
     = (Inl DeviceMismatch, [])"
  using precondition_violation_is_fatal [where target = "cloud [(1, 0, 0)] Float32 (CUDA 0)"
      and source = "cloud [(0, 0, 0)] Float32 (CPU 0)" and T = eye4 and rt = example_rt
      and nns = spec_nns and d = 1 and estimation = no_update and criteria = "criteria0 30"]
  by (simp add: cloud_def eye4_def EvaluateRegistration_def RegistrationICP_def
      check_inputs_def check_inputs_icp_def bnd_lift_Inl)

text \<open>
  C10. Agreement is not enough: when the points of the source, the points of the target
  or the transformation have an element type other than Float32, both operations fail
  before any work, whatever the devices and also when the three element types are the
  same (the example has Float64 three times, on one device).
\<close>

theorem only_Float32_is_accepted:
  assumes "points_dtype source \<noteq> Float32 \<or> points_dtype target \<noteq> Float32 \<or>
           dtype T \<noteq> Float32"
  shows "(\<exists>e. EvaluateRegistration rt nns source target d T = (Inl e, [])) \<and>
         (\<exists>e. RegistrationICP rt nns source target d T estimation criteria = (Inl e, []))"
proof (rule rejected_both)
  show "\<not> (points_dtype source = Float32 \<and> points_dtype target = Float32 \<and>
     points_device target = points_device source \<and> shape T = [4, 4] \<and>
     device T = points_device source \<and> dtype T = Float32)"
    using assms by auto
qed

theorem only_Float32_is_accepted_witness:
  "EvaluateRegistration example_rt spec_nns (cloud [(0, 0, 0)] Float64 (CPU 0))
      (cloud [(1, 0, 0)] Float64 (CPU 0)) 1 (eye4\<lparr>dtype := Float64\<rparr>)
     = (Inl AssertDtype, []) \<and>
   RegistrationICP example_rt spec_nns (cloud [(0, 0, 0)] Float64 (CPU 0))
      (cloud [(1, 0, 0)] Float64 (CPU 0)) 1 (eye4\<lparr>dtype := Float64\<rparr>) no_update
      (criteria0 30) = (Inl AssertDtype, [])"
  using only_Float32_is_accepted [where source = "cloud [(0, 0, 0)] Float64 (CPU 0)"
      and target = "cloud [(1, 0, 0)] Float64 (CPU 0)" and T = "eye4\<lparr>dtype := Float64\<rparr>"
      and rt = example_rt and nns = spec_nns and d = 1 and estimation = no_update
      and criteria = "criteria0 30"]
  by (simp add: cloud_def eye4_def EvaluateRegistration_def RegistrationICP_def
      check_inputs_def check_inputs_icp_def bnd_lift_Inl)

lemma bnd_Inr: "bnd (Inr x, l) f = (fst (f x), l @ snd (f x))"
  by (simp add: bnd_def split: prod.splits)

lemma bnd_Inl: "bnd (Inl e, l) f = (Inl e, l)"
  by (simp add: bnd_def)

subsection \<open>What one evaluation returns\<close>

lemma hybrid_eq:
  "GetCorrespondencesFromHybridSearch rt source target target_nns d T =
     (case check_inputs source target T of
        Inl e \<Rightarrow> (Inl e, [])
      | Inr _ \<Rightarrow>
          if d \<le> 0 then (Inr (RegistrationResult_new rt T), [])
          else if \<not> HybridIndex target_nns then (Inl IndexIsNotSet, [Ev_HybridIndex])
          else (Inr (hybrid_result rt target_nns source d T), [Ev_HybridIndex, Ev_HybridSearch]))"
  by (simp add: GetCorrespondencesFromHybridSearch_def hybrid_result_def bnd_lift_Inl
      bnd_lift_Inr bnd_emit ret_def throw_def Let_def RegistrationResult_new_def
      split: sum.splits)

lemma evaluate_eq:
  "GetRegistrationResultAndCorrespondences rt source target target_nns d T =
     (case check_inputs source target T of
        Inl e \<Rightarrow> (Inl e, [])
      | Inr _ \<Rightarrow>
          if d \<le> 0 then (Inr (RegistrationResult_new rt T), [Ev_Evaluate])
          else if \<not> HybridIndex target_nns
          then (Inl IndexIsNotSet, [Ev_Evaluate, Ev_HybridIndex])
          else (Inr (hybrid_result rt target_nns source d T),
                [Ev_Evaluate, Ev_HybridIndex, Ev_HybridSearch]))"
  by (simp add: GetRegistrationResultAndCorrespondences_def hybrid_eq bnd_lift_Inl
      bnd_lift_Inr bnd_emit split: sum.splits)

lemma evaluate_transformation:
  "GetRegistrationResultAndCorrespondences rt source target target_nns d T = (Inr r, l) \<Longrightarrow>
   transformation r = T"
  by (auto simp: evaluate_eq hybrid_result_def RegistrationResult_new_def Let_def
      split: sum.splits if_splits)

lemma evaluate_events:
  "GetRegistrationResultAndCorrespondences rt source target target_nns d T = (r, l) \<Longrightarrow>
   estimator_calls l = 0 \<and> logged_metrics l = [] \<and> evaluations l \<le> 1 \<and>
   (check_inputs source target T = Inr () \<longrightarrow> evaluations l = 1)"
  by (auto simp: evaluate_eq estimator_calls_def logged_metrics_def evaluations_def
      split: sum.splits if_splits)

lemma estimator_calls_append [simp]:
  "estimator_calls (a @ b) = estimator_calls a + estimator_calls b"
  by (simp add: estimator_calls_def)

lemma logged_metrics_append [simp]:
  "logged_metrics (a @ b) = logged_metrics a @ logged_metrics b"
  by (simp add: logged_metrics_def)

lemma evaluations_append [simp]:
  "evaluations (a @ b) = evaluations a + evaluations b"
  by (simp add: evaluations_def)

lemma upt4: "[0..<4] = [0, 1, 2, 3]"
  by (simp add: upt_rec)

lemma criteria0_simps:
  "relative_fitness (criteria0 n) = 1 / 1000000"
  "relative_rmse (criteria0 n) = 1 / 1000000"
  "max_iteration (criteria0 n) = n"
  by (simp_all add: criteria0_def)

subsection \<open>Float32 values of the examples\<close>

lemmas round_eval = round_float32_def round32_value_def binade_def binade_up.simps pow2_def
  round_even_def max_float32_def Let_def

lemma round_float32_small:
  "round_float32 0 = Finite 0"
  "round_float32 1 = Finite 1"
  "round_float32 2 = Finite 2"
  "round_float32 3 = Finite 3"
  "round_float32 4 = Finite 4"
  "round_float32 16 = Finite 16"
  "round_float32 (1 / 2) = Finite (1 / 2)"
  by (simp_all add: round_eval)


lemma float_of_count_small:
  "float_of_count 0 = Finite 0"
  "float_of_count (Suc 0) = Finite 1"
  "float_of_count 1 = Finite 1"
  "float_of_count 2 = Finite 2"
  "float_of_count 3 = Finite 3"
  "float_of_count 4 = Finite 4"
  "float_of_count (Suc (Suc 0)) = Finite 2"
  "float_of_count (Suc (Suc (Suc 0))) = Finite 3"
  "float_of_count (Suc (Suc (Suc (Suc 0)))) = Finite 4"
  by (simp_all add: float_of_count_def round_float32_small)

lemma seq_sum_small:
  "seq_sum [] = Finite 0"
  "seq_sum [0] = Finite 0"
  "seq_sum [1] = Finite 1"
  "seq_sum [1, 1] = Finite 2"
  "seq_sum [0, 0, 0, 4] = Finite 4"
  "seq_sum [0, 0, 0, 16] = Finite 16"
  by (simp_all add: seq_sum_def round_float32_small)

lemmas example_defs = cloud_def eye4_def spec_nns_def hybrid_result_def hybrid_row_def
  nearest_def sqdist_def IndexGet_def check_inputs_def Transform_def transform_point_def
  example_rt_def float_of_count_small seq_sum_small round_float32_small

text \<open>
  C3, as the code has it. With a cutoff \<open>\<le> 0\<close> and inputs that pass the checks, the
  evaluator returns the freshly constructed result: the given transformation, no
  correspondence index, \<open>fitness = 0\<close>, \<open>inlier_rmse = 0\<close>, and the mask that the
  constructor builds from the transformation, the same for every source. The only
  event is the evaluation itself: no index is built and no search is run.
\<close>

theorem degenerate_threshold_result:
  assumes "d \<le> 0" and "check_inputs source target T = Inr ()"
  shows "GetRegistrationResultAndCorrespondences rt source target target_nns d T =
           (Inr \<lparr>transformation = T, correspondence_select_bool = constructed_mask rt T,
                 correspondence_set = [], inlier_rmse = Finite 0, fitness = Finite 0\<rparr>,
            [Ev_Evaluate])"
  using assms by (simp add: evaluate_eq RegistrationResult_new_def)

theorem degenerate_threshold_result_witness:
  "GetRegistrationResultAndCorrespondences example_rt two_src unit_tgt (spec_nns [(1, 0, 0)])
      (- 1) eye4 =
     (Inr \<lparr>transformation = eye4, correspondence_select_bool = [],
           correspondence_set = [], inlier_rmse = Finite 0, fitness = Finite 0\<rparr>,
      [Ev_Evaluate])"
  using degenerate_threshold_result [where d = "- 1" and source = two_src
      and target = unit_tgt and T = eye4 and rt = example_rt
      and target_nns = "spec_nns [(1, 0, 0)]"]
  by (simp add: cloud_def eye4_def check_inputs_def two_src_def unit_tgt_def example_rt_def)

text \<open>
  C3 as stated fails, whatever mask the constructor builds. With the cutoff 0, a source
  of one point and a source of two points get the same result, so its mask is not the
  all-false mask of the length of the source for both.
\<close>

theorem degenerate_threshold_mask_counterexample:
  "\<forall>rt.
     fst (GetRegistrationResultAndCorrespondences rt unit_src unit_tgt (spec_nns [(1, 0, 0)])
            0 eye4) = Inr (RegistrationResult_new rt eye4) \<and>
     fst (GetRegistrationResultAndCorrespondences rt two_src unit_tgt (spec_nns [(1, 0, 0)])
            0 eye4) = Inr (RegistrationResult_new rt eye4) \<and>
     \<not> (correspondence_select_bool (RegistrationResult_new rt eye4) =
          replicate (length (points unit_src)) False \<and>
        correspondence_select_bool (RegistrationResult_new rt eye4) =
          replicate (length (points two_src)) False)"
  by (auto simp: evaluate_eq cloud_def eye4_def check_inputs_def unit_src_def two_src_def
      unit_tgt_def)

subsection \<open>The loop\<close>

lemma icp_loop_no_budget:
  "max_iteration criteria \<le> i \<Longrightarrow>
   icp_loop rt estimation target target_nns d criteria i st = (Inr st, [])"
  by (subst icp_loop.simps) simp

lemma Transform_valid:
  "check_inputs_icp source target init = Inr () \<Longrightarrow>
   \<exists>src'. Transform source init = Inr src' \<and> check_inputs src' target init = Inr ()"
  by (simp add: Transform_def check_inputs_Inr check_inputs_icp_Inr)

lemma RegistrationICP_eq:
  assumes "Transform source init = Inr src'"
    and "check_inputs_icp source target init = Inr ()"
  shows "RegistrationICP rt nns source target d init estimation criteria =
     (case GetRegistrationResultAndCorrespondences rt src' target (nns (points target)) d init of
        (Inl e, l) \<Rightarrow> (Inl e, l)
      | (Inr r0, l) \<Rightarrow>
          (case icp_loop rt estimation target (nns (points target)) d criteria 0
                  \<lparr>cur_transformation = init, source_transformed = src', result = r0,
                   corres = (correspondence_select_bool r0, correspondence_set r0)\<rparr> of
             (Inl e, l') \<Rightarrow> (Inl e, l @ l')
           | (Inr st, l') \<Rightarrow> (Inr (result st), l @ l')))"
  using assms
  by (simp add: RegistrationICP_def bnd_lift_Inr bnd_ret bnd_Inr bnd_Inl ret_def
      split: prod.splits sum.splits)

text \<open>
  C7. With \<open>max_iteration = 0\<close> and inputs that pass the checks, a run asks for exactly
  one correspondence evaluation and never calls the estimator, and the result it
  returns carries the initial transformation.
\<close>

theorem zero_iterations:
  assumes "max_iteration criteria = 0"
    and "check_inputs_icp source target init = Inr ()"
  shows "evaluations (snd (RegistrationICP rt nns source target d init estimation criteria)) = 1 \<and>
         estimator_calls (snd (RegistrationICP rt nns source target d init estimation criteria)) = 0 \<and>
         (\<forall>r. fst (RegistrationICP rt nns source target d init estimation criteria) = Inr r
              \<longrightarrow> transformation r = init)"
proof -
  from Transform_valid [OF assms(2)] obtain src' where t: "Transform source init = Inr src'"
    and c': "check_inputs src' target init = Inr ()"
    by blast
  obtain r l where e: "GetRegistrationResultAndCorrespondences rt src' target (nns (points target)) d init = (r, l)"
    by (cases "GetRegistrationResultAndCorrespondences rt src' target (nns (points target)) d init")
  from evaluate_events [OF e] c' have ev: "evaluations l = 1" "estimator_calls l = 0"
    by simp_all
  show ?thesis
  proof (cases r)
    case (Inl err)
    with e ev show ?thesis
      by (simp add: RegistrationICP_eq [OF t assms(2)])
  next
    case (Inr r0)
    with e ev evaluate_transformation [of rt src' target "nns (points target)" d init r0 l]
    show ?thesis
      by (simp add: RegistrationICP_eq [OF t assms(2)] icp_loop_no_budget assms(1))
  qed
qed

theorem zero_iterations_witness:
  "RegistrationICP example_rt spec_nns unit_src unit_tgt 2 eye4 no_update (criteria0 0) =
    (Inr \<lparr>transformation = eye4, correspondence_select_bool = [True],
          correspondence_set = [0], inlier_rmse = Finite 1, fitness = Finite 1\<rparr>,
     [Ev_Evaluate, Ev_HybridIndex, Ev_HybridSearch])"
proof -
  have t: "Transform unit_src eye4 = Inr unit_src"
    by (simp add: example_defs unit_src_def)
  have c: "check_inputs_icp unit_src unit_tgt eye4 = Inr ()"
    by (simp add: check_inputs_icp_def example_defs unit_src_def unit_tgt_def)
  have m: "max_iteration (criteria0 0) = 0"
    by (simp add: criteria0_def)
  have e: "GetRegistrationResultAndCorrespondences example_rt unit_src unit_tgt
             (spec_nns [(1, 0, 0)]) 2 eye4 =
    (Inr \<lparr>transformation = eye4, correspondence_select_bool = [True],
          correspondence_set = [0], inlier_rmse = Finite 1, fitness = Finite 1\<rparr>,
     [Ev_Evaluate, Ev_HybridIndex, Ev_HybridSearch])"
    by (simp add: evaluate_eq example_defs unit_src_def unit_tgt_def Let_def)
  have p: "points unit_tgt = [(1, 0, 0)]"
    by (simp add: cloud_def unit_tgt_def)
  show ?thesis
    using zero_iterations [OF m c, where rt = example_rt and nns = spec_nns and d = 2
        and estimation = no_update]
    by (simp add: RegistrationICP_eq [OF t c] p e icp_loop_no_budget m)
qed

lemma icp_iteration_eq:
  "icp_iteration rt estimation target target_nns d i st =
     (let l0 = [Ev_LogDebug i (fitness (result st)) (inlier_rmse (result st)),
                Ev_ComputeTransformation] in
      case estimation (source_transformed st) target (corres st) of
        Inl e \<Rightarrow> (Inl e, l0)
      | Inr update \<Rightarrow>
          (case Matmul update (cur_transformation st) of
             Inl e \<Rightarrow> (Inl e, l0)
           | Inr T' \<Rightarrow>
               (case Transform (source_transformed st) update of
                  Inl e \<Rightarrow> (Inl e, l0)
                | Inr src' \<Rightarrow>
                    (case GetRegistrationResultAndCorrespondences rt src' target target_nns d T' of
                       (Inl e, l') \<Rightarrow> (Inl e, l0 @ l')
                     | (Inr r', l') \<Rightarrow>
                         (Inr (result st,
                               \<lparr>cur_transformation = T', source_transformed = src',
                                result = r',
                                corres = (correspondence_select_bool r',
                                          correspondence_set r')\<rparr>),
                          l0 @ l')))))"
  by (simp add: icp_iteration_def bnd_emit bnd_lift_Inr bnd_lift_Inl bnd_Inr bnd_Inl ret_def
      Let_def split: sum.splits prod.splits)

lemma icp_iteration_events:
  assumes "icp_iteration rt estimation target target_nns d i st = (r, l)"
  shows "estimator_calls l = 1 \<and> logged_metrics l = [metrics (result st)]"
proof -
  have "\<And>src' T' r' l'. GetRegistrationResultAndCorrespondences rt src' target target_nns d T' = (r', l')
     \<Longrightarrow> estimator_calls l' = 0 \<and> logged_metrics l' = []"
    using evaluate_events by blast
  then show ?thesis
    using assms
    by (auto simp: icp_iteration_eq Let_def estimator_calls_def logged_metrics_def metrics_def
      split: sum.splits prod.splits)
qed










lemma icp_iteration_step:
  "icp_iteration rt estimation target target_nns d i st = (Inr (backup, st'), l) \<Longrightarrow>
   iteration_step rt estimation target target_nns d st st'"
  by (auto simp: icp_iteration_eq iteration_step_def Let_def split: sum.splits prod.splits)

lemma icp_loop_chain:
  "icp_loop rt estimation target target_nns d criteria i st = (Inr st', evs) \<Longrightarrow>
   \<exists>sts. length sts = Suc (estimator_calls evs) \<and> sts ! 0 = st \<and> last sts = st' \<and>
         (\<forall>j < estimator_calls evs.
            iteration_step rt estimation target target_nns d (sts ! j) (sts ! Suc j))"
proof (induction rt estimation target target_nns d criteria i st arbitrary: st' evs
    rule: icp_loop.induct)
  case (1 rt estimation target target_nns d criteria i st)
  note run = "1.prems"
  show ?case
  proof (cases "i < max_iteration criteria")
    case False
    with run have "st' = st" "evs = []"
      by (subst (asm) icp_loop.simps, simp)+
    then show ?thesis
      by (intro exI [where x = "[st]"]) (simp add: estimator_calls_def)
  next
    case True
    obtain r l where it: "icp_iteration rt estimation target target_nns d i st = (r, l)"
      by (cases "icp_iteration rt estimation target target_nns d i st")
    from icp_iteration_events [OF it] have one: "estimator_calls l = 1"
      by simp
    from run True it obtain p where Inr: "r = Inr p"
      by (subst (asm) icp_loop.simps) (cases r, auto)
    obtain backup st1 where p: "p = (backup, st1)" by (cases p)
    from it Inr p have step: "iteration_step rt estimation target target_nns d st st1"
      by (simp add: icp_iteration_step)
    show ?thesis
    proof (cases "converged criteria backup (result st1)")
      case c: True
      with run True it Inr p have "st' = st1" "evs = l"
        by (subst (asm) icp_loop.simps, simp)+
      with one step show ?thesis
        by (intro exI [where x = "[st, st1]"]) simp
    next
      case c: False
      obtain r2 l2 where
        rec: "icp_loop rt estimation target target_nns d criteria (i + 1) st1 = (r2, l2)"
        by (cases "icp_loop rt estimation target target_nns d criteria (i + 1) st1")
      with run True it Inr p c have r2: "r2 = Inr st'" and evs: "evs = l @ l2"
        by (subst (asm) icp_loop.simps, simp)+
      from rec r2 "1.IH" [OF True it [symmetric] Inr p [symmetric] c, of st' l2]
      obtain sts where len: "length sts = Suc (estimator_calls l2)"
        and first: "sts ! 0 = st1" and final: "last sts = st'"
        and chain: "\<And>j. j < estimator_calls l2 \<Longrightarrow>
              iteration_step rt estimation target target_nns d (sts ! j) (sts ! Suc j)"
        by auto
      from len have ne: "sts \<noteq> []" by auto
      have "\<forall>j < estimator_calls evs.
              iteration_step rt estimation target target_nns d ((st # sts) ! j) ((st # sts) ! Suc j)"
      proof (intro allI impI)
        fix j assume j: "j < estimator_calls evs"
        show "iteration_step rt estimation target target_nns d ((st # sts) ! j) ((st # sts) ! Suc j)"
        proof (cases j)
          case 0
          with step first show ?thesis by simp
        next
          case (Suc j')
          with j evs one chain [of j'] show ?thesis by simp
        qed
      qed
      with len final ne evs one show ?thesis
        by (intro exI [where x = "st # sts"]) simp
    qed
  qed
qed

text \<open>
  C6. Let a run of \<^verbatim>\<open>RegistrationICP\<close> return after \<open>k\<close> calls of the estimator. Then
  the local variables of the loop went through \<open>k + 1\<close> states. The first holds the
  initial transformation and the source transformed by it. Each further state comes
  from the one before it by \<open>iteration_step\<close>: the update is what the estimator answers
  on the working cloud and the correspondences of the state before, the running
  transformation is \<open>Matmul update old\<close> (the update on the left), the working cloud is
  the working cloud of the state before transformed by the update alone, and the result
  is the evaluation of that cloud under the new running transformation. The returned
  result is the result of the last state and carries its running transformation.
\<close>

theorem update_is_left_composed:
  assumes "RegistrationICP rt nns source target d init estimation criteria = (Inr res, evs)"
  shows "\<exists>sts. length sts = Suc (estimator_calls evs) \<and>
           cur_transformation (sts ! 0) = init \<and>
           Transform source init = Inr (source_transformed (sts ! 0)) \<and>
           fst (GetRegistrationResultAndCorrespondences rt (source_transformed (sts ! 0))
                  target (nns (points target)) d init) = Inr (result (sts ! 0)) \<and>
           corres (sts ! 0) = (correspondence_select_bool (result (sts ! 0)),
                               correspondence_set (result (sts ! 0))) \<and>
           (\<forall>j < estimator_calls evs.
              iteration_step rt estimation target (nns (points target)) d
                (sts ! j) (sts ! Suc j)) \<and>
           result (last sts) = res \<and>
           transformation res = cur_transformation (last sts)"
proof -
  from assms have c: "check_inputs_icp source target init = Inr ()"
    by (cases "check_inputs_icp source target init") (simp_all add: RegistrationICP_rejects)
  from Transform_valid [OF c] obtain src' where t: "Transform source init = Inr src'"
    by blast
  obtain r l where
    e: "GetRegistrationResultAndCorrespondences rt src' target (nns (points target)) d init = (r, l)"
    by (cases "GetRegistrationResultAndCorrespondences rt src' target (nns (points target)) d init")
  from evaluate_events [OF e] have z: "estimator_calls l = 0" by simp
  from assms e obtain r0 where r0: "r = Inr r0"
    by (cases r) (simp_all add: RegistrationICP_eq [OF t c])
  let ?st0 = "\<lparr>cur_transformation = init, source_transformed = src', result = r0,
                   corres = (correspondence_select_bool r0, correspondence_set r0)\<rparr>"
  from assms e r0 obtain st' l' where
    loop: "icp_loop rt estimation target (nns (points target)) d criteria 0 ?st0 = (Inr st', l')"
    and res: "res = result st'" and evs: "evs = l @ l'"
    by (auto simp: RegistrationICP_eq [OF t c] split: prod.splits sum.splits)
  from icp_loop_chain [OF loop] obtain sts where
    len: "length sts = Suc (estimator_calls l')" and first: "sts ! 0 = ?st0"
    and final: "last sts = st'"
    and chain: "\<And>j. j < estimator_calls l' \<Longrightarrow>
       iteration_step rt estimation target (nns (points target)) d (sts ! j) (sts ! Suc j)"
    by auto
  from len have ne: "sts \<noteq> []" by auto
  have tr: "transformation (result (last sts)) = cur_transformation (last sts)"
  proof (cases "estimator_calls l'")
    case 0
    with len ne have "last sts = sts ! 0"
      by (simp add: last_conv_nth)
    with first e r0 evaluate_transformation [of rt src' target "nns (points target)" d init r0 l]
    show ?thesis by simp
  next
    case (Suc j)
    with len ne have last: "last sts = sts ! Suc j"
      by (simp add: last_conv_nth)
    from chain [of j] Suc
    have "fst (GetRegistrationResultAndCorrespondences rt (source_transformed (sts ! Suc j))
                 target (nns (points target)) d (cur_transformation (sts ! Suc j))) =
          Inr (result (sts ! Suc j))"
      by (auto simp: iteration_step_def split: sum.splits)
    then show ?thesis
      unfolding last
      by (metis evaluate_transformation prod.collapse)
  qed
  show ?thesis
    using len first final chain tr res evs z e r0 t
    by (intro exI [where x = sts]) simp
qed

lemmas run_defs = unit_src_def unit_tgt_def off_src_def matched_def shift_once_def
  leave_once_def always_shift_def shift_x_def shift2_def evaluate_eq icp_iteration_eq
  example_defs Matmul_def dot_def column_def upt4 converged_def delta_below_def Let_def

lemma shift_twice_run:
  "RegistrationICP example_rt spec_nns unit_src unit_tgt 10 eye4 always_shift (criteria0 2) =
     (Inr (matched shift2 1),
      [Ev_Evaluate, Ev_HybridIndex, Ev_HybridSearch,
       Ev_LogDebug 0 (Finite 1) (Finite 1), Ev_ComputeTransformation,
       Ev_Evaluate, Ev_HybridIndex, Ev_HybridSearch,
       Ev_LogDebug 1 (Finite 1) (Finite 0), Ev_ComputeTransformation,
       Ev_Evaluate, Ev_HybridIndex, Ev_HybridSearch])"
proof -
  have t: "Transform unit_src eye4 = Inr unit_src"
    by (simp add: run_defs)
  have c: "check_inputs_icp unit_src unit_tgt eye4 = Inr ()"
    by (simp add: check_inputs_icp_def run_defs)
  have p: "points unit_tgt = [(1, 0, 0)]"
    by (simp add: run_defs)
  have e: "GetRegistrationResultAndCorrespondences example_rt unit_src unit_tgt
             (spec_nns [(1, 0, 0)]) 10 eye4 =
    (Inr (matched eye4 1), [Ev_Evaluate, Ev_HybridIndex, Ev_HybridSearch])"
    by (simp add: run_defs)
  let ?st0 = "\<lparr>cur_transformation = eye4, source_transformed = unit_src,
                result = matched eye4 1, corres = ([True], [0])\<rparr>"
  let ?st1 = "\<lparr>cur_transformation = shift_x, source_transformed = unit_tgt,
                result = matched shift_x 0, corres = ([True], [0])\<rparr>"
  let ?st2 = "\<lparr>cur_transformation = shift2, source_transformed = off_src,
                result = matched shift2 1, corres = ([True], [0])\<rparr>"
  have i0: "icp_iteration example_rt always_shift unit_tgt (spec_nns [(1, 0, 0)]) 10 0 ?st0 =
     (Inr (matched eye4 1, ?st1),
      [Ev_LogDebug 0 (Finite 1) (Finite 1), Ev_ComputeTransformation,
       Ev_Evaluate, Ev_HybridIndex, Ev_HybridSearch])"
    by (simp add: run_defs)
  have i1: "icp_iteration example_rt always_shift unit_tgt (spec_nns [(1, 0, 0)]) 10 1 ?st1 =
     (Inr (matched shift_x 0, ?st2),
      [Ev_LogDebug 1 (Finite 1) (Finite 0), Ev_ComputeTransformation,
       Ev_Evaluate, Ev_HybridIndex, Ev_HybridSearch])"
    by (simp add: run_defs)
  have c0: "\<not> converged (criteria0 2) (matched eye4 1) (matched shift_x 0)"
    by (simp add: run_defs criteria0_simps)
  have c1: "\<not> converged (criteria0 2) (matched shift_x 0) (matched shift2 1)"
    by (simp add: run_defs criteria0_simps)
  have m: "0 < max_iteration (criteria0 2)" "1 < max_iteration (criteria0 2)"
    by (simp_all add: criteria0_simps)
  have l2: "icp_loop example_rt always_shift unit_tgt (spec_nns [(1, 0, 0)]) 10 (criteria0 2) 2 ?st2 =
     (Inr ?st2, [])"
    by (simp add: icp_loop_no_budget criteria0_simps)
  have l1: "icp_loop example_rt always_shift unit_tgt (spec_nns [(1, 0, 0)]) 10 (criteria0 2) 1 ?st1 =
     (Inr ?st2, [Ev_LogDebug 1 (Finite 1) (Finite 0), Ev_ComputeTransformation,
       Ev_Evaluate, Ev_HybridIndex, Ev_HybridSearch])"
    by (subst icp_loop.simps) (simp add: i1 c1 m l2)
  have l0: "icp_loop example_rt always_shift unit_tgt (spec_nns [(1, 0, 0)]) 10 (criteria0 2) 0 ?st0 =
     (Inr ?st2, [Ev_LogDebug 0 (Finite 1) (Finite 1), Ev_ComputeTransformation,
       Ev_Evaluate, Ev_HybridIndex, Ev_HybridSearch,
       Ev_LogDebug 1 (Finite 1) (Finite 0), Ev_ComputeTransformation,
       Ev_Evaluate, Ev_HybridIndex, Ev_HybridSearch])"
    by (subst icp_loop.simps) (simp add: i0 c0 m l1)
  have r: "correspondence_select_bool (matched eye4 1) = [True]"
    "correspondence_set (matched eye4 1) = [0]"
    by (simp_all add: matched_def)
  show ?thesis
    by (simp add: RegistrationICP_eq [OF t c] p e r l0)
qed

theorem update_is_left_composed_witness:
  "RegistrationICP example_rt spec_nns unit_src unit_tgt 10 eye4 always_shift (criteria0 2) =
     (Inr (matched shift2 1),
      [Ev_Evaluate, Ev_HybridIndex, Ev_HybridSearch,
       Ev_LogDebug 0 (Finite 1) (Finite 1), Ev_ComputeTransformation,
       Ev_Evaluate, Ev_HybridIndex, Ev_HybridSearch,
       Ev_LogDebug 1 (Finite 1) (Finite 0), Ev_ComputeTransformation,
       Ev_Evaluate, Ev_HybridIndex, Ev_HybridSearch]) \<and>
   Matmul shift_x eye4 = Inr shift_x \<and>
   Matmul shift_x shift_x = Inr shift2 \<and>
   Transform unit_src shift_x = Inr unit_tgt \<and>
   Transform unit_tgt shift_x = Inr off_src \<and>
   transformation (matched shift2 1) = shift2 \<and>
   shift2 \<noteq> shift_x \<and>
   Matmul shift_x rot_z = Inr shift_rot \<and>
   Matmul rot_z shift_x \<noteq> Inr shift_rot"
  using update_is_left_composed [where rt = example_rt and nns = spec_nns
      and source = unit_src and target = unit_tgt and d = 10 and init = eye4
      and estimation = always_shift and criteria = "criteria0 2"
      and res = "matched shift2 1"]
  by (simp add: shift_twice_run)
    (simp add: unit_src_def unit_tgt_def off_src_def matched_def shift_x_def shift2_def
      rot_z_def shift_rot_def eye4_def cloud_def Transform_def transform_point_def Matmul_def
      dot_def column_def upt4)






subsection \<open>The correspondences of a result\<close>


lemma IndexGet_length: "length (IndexGet xs sel) = length (filter id (take (length xs) sel))"
  unfolding IndexGet_def
proof (induction xs arbitrary: sel)
  case Nil
  then show ?case by simp
next
  case (Cons x xs)
  then show ?case by (cases sel) simp_all
qed

lemma IndexGet_nth:
  "length sel = length xs \<Longrightarrow>
   IndexGet xs sel = map (\<lambda>j. xs ! j) (filter (\<lambda>j. sel ! j) [0..<length xs])"
proof (induction sel xs rule: list_induct2)
  case Nil
  then show ?case by (simp add: IndexGet_def)
next
  case (Cons s sel x xs)
  have u: "[0..<Suc (length xs)] = 0 # map Suc [0..<length xs]"
    by (simp add: upt_conv_Cons map_Suc_upt del: upt_Suc)
  from Cons.IH have ih: "map fst (filter snd (zip xs sel)) =
      map (\<lambda>j. xs ! j) (filter (\<lambda>j. sel ! j) [0..<length xs])"
    by (simp add: IndexGet_def)
  show ?case
    by (simp add: IndexGet_def u ih filter_map comp_def del: upt_Suc)
qed





lemma hybrid_result_layout:
  "correspondence_select_bool (hybrid_result rt target_nns source d T) =
     map (\<lambda>i. i \<noteq> - 1) (fst (HybridSearch target_nns (points source) (d * d)))"
  "correspondence_set (hybrid_result rt target_nns source d T) =
     IndexGet (fst (HybridSearch target_nns (points source) (d * d)))
       (map (\<lambda>i. i \<noteq> - 1) (fst (HybridSearch target_nns (points source) (d * d))))"
  by (simp_all add: hybrid_result_def Let_def)

text \<open>
  C8, as the code has it. When the cutoff is positive and the index answers with one
  entry for each query point, the result that an evaluation returns has as many
  correspondence indices as its mask has true entries, the mask has one entry for each
  source point, and the indices are the answers of the search at the true positions of
  the mask, in ascending order of the source index: the \<open>i\<close>-th index belongs to the
  \<open>i\<close>-th true entry. When the cutoff is \<open>\<le> 0\<close> the result has no index, and its mask
  is the one the constructor builds from the transformation, whatever the source.
\<close>

theorem correspondence_layout:
  assumes run: "GetRegistrationResultAndCorrespondences rt source target target_nns d T =
                  (Inr r, evs)"
    and contract:
      "length (fst (HybridSearch target_nns (points source) (d * d))) = length (points source)"
  shows "(0 < d \<longrightarrow>
            length (correspondence_set r) = length (filter id (correspondence_select_bool r)) \<and>
            length (correspondence_select_bool r) = length (points source) \<and>
            correspondence_set r =
              map (\<lambda>j. fst (HybridSearch target_nns (points source) (d * d)) ! j)
                (filter (\<lambda>j. correspondence_select_bool r ! j) [0..<length (points source)])) \<and>
         (d \<le> 0 \<longrightarrow>
            correspondence_set r = [] \<and>
            correspondence_select_bool r = constructed_mask rt T)"
proof (cases "d \<le> 0")
  case True
  with run have "r = RegistrationResult_new rt T"
    by (auto simp: evaluate_eq split: sum.splits)
  with True show ?thesis
    by (simp add: RegistrationResult_new_def)
next
  case False
  let ?idx = "fst (HybridSearch target_nns (points source) (d * d))"
  from False run have r: "r = hybrid_result rt target_nns source d T"
    by (auto simp: evaluate_eq split: sum.splits if_splits)
  have m: "correspondence_select_bool r = map (\<lambda>i. i \<noteq> - 1) ?idx"
    and c: "correspondence_set r = IndexGet ?idx (correspondence_select_bool r)"
    by (simp_all add: r hybrid_result_layout)
  have l: "length (correspondence_select_bool r) = length ?idx"
    by (simp add: m)
  from c l have "length (correspondence_set r) = length (filter id (correspondence_select_bool r))"
    by (simp add: IndexGet_length)
  moreover from c IndexGet_nth [OF l]
  have "correspondence_set r =
          map (\<lambda>j. ?idx ! j) (filter (\<lambda>j. correspondence_select_bool r ! j) [0..<length ?idx])"
    by simp
  ultimately show ?thesis
    using False l contract by simp
qed

theorem correspondence_layout_witness:
  "GetRegistrationResultAndCorrespondences example_rt two_src two_tgt
      (spec_nns (points two_tgt)) 2 eye4 =
     (Inr \<lparr>transformation = eye4, correspondence_select_bool = [True, False],
           correspondence_set = [1], inlier_rmse = Finite 1, fitness = Finite (1 / 2)\<rparr>,
      [Ev_Evaluate, Ev_HybridIndex, Ev_HybridSearch]) \<and>
   fst (HybridSearch (spec_nns (points two_tgt)) (points two_src) (2 * 2)) = [1, - 1]"
  using correspondence_layout [where rt = example_rt and source = two_src and target = two_tgt
      and target_nns = "spec_nns (points two_tgt)" and d = 2 and T = eye4
      and r = "\<lparr>transformation = eye4, correspondence_select_bool = [True, False],
           correspondence_set = [1], inlier_rmse = Finite 1, fitness = Finite (1 / 2)\<rparr>"
      and evs = "[Ev_Evaluate, Ev_HybridIndex, Ev_HybridSearch]"]
  by (simp add: evaluate_eq example_defs two_src_def two_tgt_def Let_def)

text \<open>
  C8 as stated fails on the short-circuit, whatever mask the constructor builds: with
  the cutoff \<open>-1\<close>, a source of two points and a source of three points get the same
  result, so the length of its mask is not the number of source points for both.
\<close>

theorem mask_length_counterexample:
  "\<forall>rt.
     fst (GetRegistrationResultAndCorrespondences rt two_src two_tgt
            (spec_nns (points two_tgt)) (- 1) eye4) = Inr (RegistrationResult_new rt eye4) \<and>
     fst (GetRegistrationResultAndCorrespondences rt three_src two_tgt
            (spec_nns (points two_tgt)) (- 1) eye4) = Inr (RegistrationResult_new rt eye4) \<and>
     \<not> (length (correspondence_select_bool (RegistrationResult_new rt eye4)) =
          length (points two_src) \<and>
        length (correspondence_select_bool (RegistrationResult_new rt eye4)) =
          length (points three_src))"
  by (auto simp: evaluate_eq cloud_def eye4_def check_inputs_def two_src_def two_tgt_def
      three_src_def)

subsection \<open>The metrics of a result\<close>













text \<open>
  C4. The evaluator divides by the number of matched pairs without a test. One source
  point at the origin, one target point at distance 10 and a cutoff 1 pass every check
  and match nothing: the rmse is \<open>sqrt (0 / 0)\<close>, which is NaN, and NaN is not \<open>\<ge> 0\<close>.
  \<^verbatim>\<open>EvaluateRegistration\<close> and \<^verbatim>\<open>RegistrationICP\<close> return that result.
\<close>

theorem empty_correspondence_gives_nan:
  "GetRegistrationResultAndCorrespondences example_rt unit_src far_tgt
       (spec_nns (points far_tgt)) 1 eye4 =
     (Inr unmatched, [Ev_Evaluate, Ev_HybridIndex, Ev_HybridSearch]) \<and>
   EvaluateRegistration example_rt spec_nns unit_src far_tgt 1 eye4 =
     (Inr unmatched, [Ev_Evaluate, Ev_HybridIndex, Ev_HybridSearch]) \<and>
   RegistrationICP example_rt spec_nns unit_src far_tgt 1 eye4 no_update (criteria0 0) =
     (Inr unmatched, [Ev_Evaluate, Ev_HybridIndex, Ev_HybridSearch]) \<and>
   inlier_rmse unmatched = NaN \<and>
   \<not> float_le (Finite 0) (inlier_rmse unmatched)"
proof -
  have e: "GetRegistrationResultAndCorrespondences example_rt unit_src far_tgt
             (spec_nns (points far_tgt)) 1 eye4 =
     (Inr unmatched, [Ev_Evaluate, Ev_HybridIndex, Ev_HybridSearch])"
    by (simp add: evaluate_eq example_defs unit_src_def far_tgt_def unmatched_def Let_def)
  have t: "Transform unit_src eye4 = Inr unit_src"
    by (simp add: example_defs unit_src_def)
  have c: "check_inputs_icp unit_src far_tgt eye4 = Inr ()"
    "check_inputs unit_src far_tgt eye4 = Inr ()"
    by (simp_all add: check_inputs_icp_def example_defs unit_src_def far_tgt_def)
  have ev: "EvaluateRegistration example_rt spec_nns unit_src far_tgt 1 eye4 =
     (Inr unmatched, [Ev_Evaluate, Ev_HybridIndex, Ev_HybridSearch])"
    by (simp add: EvaluateRegistration_def c t bnd_lift_Inr e)
  have icp: "RegistrationICP example_rt spec_nns unit_src far_tgt 1 eye4 no_update (criteria0 0) =
     (Inr unmatched, [Ev_Evaluate, Ev_HybridIndex, Ev_HybridSearch])"
    by (simp add: RegistrationICP_eq [OF t c(1)] e icp_loop_no_budget criteria0_simps)
  show ?thesis
    by (simp add: e ev icp) (simp add: unmatched_def)
qed

subsection \<open>The two searches\<close>






end
